theory Spec2Isabelle
  imports Main "HOL-Library.Word"
begin

unbundle bit_operations_syntax

section \<open>The child process supervisor of mintty (child.c)\<close>

text \<open>
  The module keeps its state in file-level variables (\<open>pid\<close>, \<open>status\<close>, \<open>killed\<close>,
  \<open>pty_fd\<close>, \<open>log_fd\<close>, \<open>win_fd\<close>) and acts on the outside world through system calls
  and through the terminal (\<open>term_write\<close>, \<open>term_reset_screen\<close>). The model passes the
  variables around as a record and records every call that leaves the module in a
  trace held in the same record. What the outside world answers (the result of
  \<open>waitpid\<close>, \<open>kill\<close>, \<open>select\<close>, \<open>read\<close>, \<open>write\<close>) is an argument of the modelled
  function. \<open>exit\<close> ends the run with the outcome \<open>Exit\<close>.

  Where the source branches on the Cygwin version, the model follows the branch for
  \<open>CYGWIN_VERSION_DLL_MAJOR >= 1007\<close>.
\<close>

subsection \<open>Constants of the platform headers\<close>

text \<open>
  Signal and error numbers of \<open>signal.h\<close> and \<open>errno.h\<close> on Cygwin. The headers
  are not part of the sources; the program only names the constants.
\<close>

definition SIGHUP :: int where "SIGHUP = 1"
definition SIGINT :: int where "SIGINT = 2"
definition SIGQUIT :: int where "SIGQUIT = 3"
definition SIGILL :: int where "SIGILL = 4"
definition SIGTRAP :: int where "SIGTRAP = 5"
definition SIGABRT :: int where "SIGABRT = 6"
definition SIGFPE :: int where "SIGFPE = 8"
definition SIGKILL :: int where "SIGKILL = 9"
definition SIGBUS :: int where "SIGBUS = 10"
definition SIGSEGV :: int where "SIGSEGV = 11"
definition SIGSYS :: int where "SIGSYS = 12"
definition SIGPIPE :: int where "SIGPIPE = 13"
definition SIGTERM :: int where "SIGTERM = 15"
definition SIGCHLD :: int where "SIGCHLD = 20"
definition EINTR :: int where "EINTR = 4"

text \<open>
  The wait status is a C \<open>int\<close>, here a 32-bit word. The macros of \<open>sys/wait.h\<close>
  (a platform header, not part of the sources) read it as Cygwin lays it out: the low seven bits hold the terminating signal, the
  low byte is zero after a normal exit, and bits 8 to 15 hold the exit code.
  \<open>>>\<close> on an \<open>int\<close> shifts the sign in, hence \<open>signed_drop_bit\<close>.
\<close>

definition WIFEXITED :: "32 word \<Rightarrow> bool" where
  "WIFEXITED w = (w AND 0xff = 0)"

definition WIFSIGNALED :: "32 word \<Rightarrow> bool" where
  "WIFSIGNALED w = (0 < (w AND 0x7f) \<and> (w AND 0x7f) < 0x7f)"

definition WEXITSTATUS :: "32 word \<Rightarrow> 32 word" where
  "WEXITSTATUS w = signed_drop_bit 8 w AND 0xff"

definition WTERMSIG :: "32 word \<Rightarrow> 32 word" where
  "WTERMSIG w = w AND 0x7f"

subsection \<open>State and outcomes\<close>

text \<open>
  Modelled from the spec: \<open>hold\<close> and its values are declared in config.h, which is
  not part of the sources. The spec lists the policies NEVER, DEFAULT and ERROR, the
  three constants that child.c compares \<open>hold\<close> with; \<open>HOLD_other\<close> stands for every
  value that is none of them, for which child.c has no branch.
\<close>

datatype hold_t = HOLD_NEVER | HOLD_DEFAULT | HOLD_ERROR | HOLD_other

datatype sighandler = SIG_DFL | SIG_IGN | Handler_sigexit | Handler_sigchld

text \<open>The calls \<open>kill(target, sig)\<close> and \<open>signal(sig, handler)\<close>, in the order made.\<close>

datatype syscall = Sys_kill int int | Sys_signal int sighandler

text \<open>
  The calls into the terminal. \<open>term_write\<close> is called from three places of the
  module; the trace keeps the place with the bytes: the data read from the pty
  (line 276), the status line (line 247) and the echo of sent input (line 344).
\<close>

datatype site = Pty_data | Status_line | Echo

datatype term_call = Term_write site string | Term_reset_screen

record child_state =
  pid :: int
  status :: "32 word"
  killed :: bool
  pty_fd :: int
  log_fd :: int
  win_fd :: int
  sys_calls :: "syscall list"
  term_calls :: "term_call list"
  pty_written :: "string list"
  log_written :: "string list"
  pty_read :: "string list"

text \<open>
  \<open>sys_calls\<close>, \<open>term_calls\<close>, \<open>pty_written\<close> (the buffers passed to \<open>write(pty_fd, ...)\<close>)
  and \<open>log_written\<close> (those passed to \<open>write(log_fd, ...)\<close>) are the output traces;
  \<open>pty_read\<close> lists the chunks that \<open>read(pty_fd, ...)\<close> returned.
\<close>

datatype outcome = Exit int child_state | Return child_state

text \<open>The values of the static initialisers (lines 37 to 40).\<close>

definition initial_state :: child_state where
  "initial_state = \<lparr> pid = 0, status = - 1, killed = False, pty_fd = - 1, log_fd = - 1,
     win_fd = 0, sys_calls = [], term_calls = [], pty_written = [], log_written = [],
     pty_read = [] \<rparr>"

subsection \<open>sigexit and the handlers installed by child_create\<close>

text \<open>\<open>sigexit\<close> (lines 54 to 61); \<open>self\<close> is the answer of \<open>getpid()\<close>.\<close>

definition sigexit :: "int \<Rightarrow> int \<Rightarrow> child_state \<Rightarrow> child_state" where
  "sigexit self sig s =
     (let s1 = (if pid s \<noteq> 0
                then s\<lparr>sys_calls := sys_calls s @ [Sys_kill (- pid s) SIGHUP]\<rparr>
                else s)
      in s1\<lparr>sys_calls := sys_calls s1 @ [Sys_signal sig SIG_DFL, Sys_kill self sig]\<rparr>)"

text \<open>The first statements of \<open>child_create\<close> (lines 117 to 124).\<close>

definition child_create_signals :: "child_state \<Rightarrow> child_state" where
  "child_create_signals s =
     s\<lparr>sys_calls := sys_calls s @
        [Sys_signal SIGHUP SIG_IGN,
         Sys_signal SIGINT Handler_sigexit,
         Sys_signal SIGTERM Handler_sigexit,
         Sys_signal SIGQUIT Handler_sigexit,
         Sys_signal SIGCHLD Handler_sigchld]\<rparr>"

text \<open>The disposition of a signal after a sequence of calls: the last \<open>signal\<close> wins.\<close>

fun disposition :: "sighandler \<Rightarrow> syscall list \<Rightarrow> int \<Rightarrow> sighandler" where
  "disposition d [] sig = d"
| "disposition d (Sys_kill t g # cs) sig = disposition d cs sig"
| "disposition d (Sys_signal g h # cs) sig = disposition (if g = sig then h else d) cs sig"

subsection \<open>sigchld\<close>

text \<open>One answer of \<open>waitpid(-1, &chld_status, WNOHANG)\<close>, with \<open>errno\<close> after it.\<close>

record waitpid_result =
  chld_pid :: int
  chld_status :: "32 word"
  wp_errno :: int

text \<open>
  The decision of lines 87 to 105: does the handler call \<open>exit(0)\<close>?
  For a count \<open>n\<close> of 32 or more C leaves \<open>1 << n\<close> undefined. The model follows the
  compiled program: the shift instruction of the i686 target of Cygwin takes the
  count modulo 32, so that a signal numbered \<open>n + 32\<close> tests the bit of signal \<open>n\<close>.
\<close>

definition error_sigs :: "32 word" where
  "error_sigs =
     push_bit (nat SIGILL) 1 OR push_bit (nat SIGTRAP) 1 OR push_bit (nat SIGABRT) 1 OR
     push_bit (nat SIGFPE) 1 OR push_bit (nat SIGBUS) 1 OR push_bit (nat SIGSEGV) 1 OR
     push_bit (nat SIGPIPE) 1 OR push_bit (nat SIGSYS) 1"

definition exit_now :: "hold_t \<Rightarrow> bool \<Rightarrow> 32 word \<Rightarrow> bool" where
  "exit_now hold kld st =
     (if kld \<or> hold = HOLD_NEVER then True
      else if hold = HOLD_DEFAULT then WIFSIGNALED st \<or> WEXITSTATUS st \<noteq> 255
      else if hold = HOLD_ERROR then
        (if WIFEXITED st then WEXITSTATUS st = 0
         else error_sigs AND push_bit (unat (WTERMSIG st) mod 32) 1 \<noteq> 0)
      else False)"

text \<open>
  The test of lines 73 and 74: the answer is for another process, or \<open>waitpid\<close> was
  interrupted, and the loop tries again.
\<close>

definition try_again :: "child_state \<Rightarrow> waitpid_result \<Rightarrow> bool" where
  "try_again s w =
     ((chld_pid w > 0 \<and> chld_pid w \<noteq> pid s) \<or> (chld_pid w = - 1 \<and> wp_errno w = EINTR))"

text \<open>
  The loop of lines 68 to 106, over the answers that \<open>waitpid\<close> gives in turn. The
  loop ends only by \<open>break\<close> or \<open>exit\<close>; when the answers run out before that the
  result is \<open>None\<close>. \<open>errno\<close> is saved and restored by the handler and is not part of
  the state.
\<close>

fun sigchld_loop :: "hold_t \<Rightarrow> waitpid_result list \<Rightarrow> child_state \<Rightarrow> outcome option" where
  "sigchld_loop hold [] s = None"
| "sigchld_loop hold (w # ws) s =
     (if try_again s w then sigchld_loop hold ws s
      else if chld_pid w \<le> 0 then Some (Return s)
      else
        (let s' = s\<lparr>pid := 0, status := chld_status w\<rparr>
         in if exit_now hold (killed s') (status s') then Some (Exit 0 s')
            else sigchld_loop hold ws s'))"

definition sigchld :: "hold_t \<Rightarrow> int \<Rightarrow> waitpid_result list \<Rightarrow> child_state \<Rightarrow> outcome option" where
  "sigchld hold sig ws s =
     (case sigchld_loop hold ws s of
        None \<Rightarrow> None
      | Some (Exit c s') \<Rightarrow> Some (Exit c s')
      | Some (Return s') \<Rightarrow>
          Some (Return (s'\<lparr>sys_calls := sys_calls s' @ [Sys_signal sig Handler_sigchld]\<rparr>)))"

subsection \<open>child_kill, child_write, child_send, child_sendw\<close>

text \<open>\<open>child_kill\<close> (lines 289 to 297); \<open>kill_ret\<close> is the answer of \<open>kill\<close>.\<close>

definition child_kill :: "bool \<Rightarrow> int \<Rightarrow> child_state \<Rightarrow> outcome" where
  "child_kill point_blank kill_ret s =
     (if pid s = 0 then Exit 0 s
      else
        (let s1 = s\<lparr>sys_calls := sys_calls s @
                     [Sys_kill (- pid s) (if point_blank then SIGKILL else SIGHUP)]\<rparr>
         in if kill_ret < 0 then Exit 0 s1
            else if point_blank then Exit 0 s1
            else Return (s1\<lparr>killed := True\<rparr>)))"

text \<open>
  \<open>child_write\<close> (lines 330 to 337); \<open>write_ret\<close> is the answer of \<open>write\<close>, which
  the source does not look at.
\<close>

definition child_write :: "string \<Rightarrow> int \<Rightarrow> int \<Rightarrow> child_state \<Rightarrow> outcome" where
  "child_write buf write_ret kill_ret s =
     (if 0 \<le> pty_fd s then Return (s\<lparr>pty_written := pty_written s @ [buf]\<rparr>)
      else child_kill False kill_ret s)"

text \<open>\<open>child_send\<close> (lines 339 to 346); \<open>echoing\<close> is \<open>term.echoing\<close>.\<close>

definition child_send :: "bool \<Rightarrow> string \<Rightarrow> int \<Rightarrow> int \<Rightarrow> child_state \<Rightarrow> outcome" where
  "child_send echoing buf write_ret kill_ret s =
     (let s1 = s\<lparr>term_calls := term_calls s @ [Term_reset_screen]\<rparr>;
          s2 = (if echoing then s1\<lparr>term_calls := term_calls s1 @ [Term_write Echo buf]\<rparr>
                else s1)
      in child_write buf write_ret kill_ret s2)"

text \<open>
  The character set layer (charset.c) is not part of the sources: \<open>cs_cur_max\<close> and
  the function \<open>cs_wcntombn\<close> are parameters. For a wide string and the size of the
  output buffer, \<open>cs_wcntombn\<close> gives the value returned and the bytes left in the
  buffer.
\<close>

type_synonym wchar = "16 word"

record charset =
  cs_cur_max :: nat
  cs_wcntombn :: "wchar list \<Rightarrow> nat \<Rightarrow> int \<times> string"

text \<open>\<open>child_sendw\<close> (lines 348 to 355).\<close>

definition child_sendw ::
  "charset \<Rightarrow> wchar list \<Rightarrow> bool \<Rightarrow> int \<Rightarrow> int \<Rightarrow> child_state \<Rightarrow> outcome" where
  "child_sendw cs ws echoing write_ret kill_ret s =
     (case cs_wcntombn cs ws (length ws * cs_cur_max cs) of
        (len, buf) \<Rightarrow>
          if 0 < len then child_send echoing (take (nat len) buf) write_ret kill_ret s
          else Return s)"

subsection \<open>child_proc\<close>

text \<open>Decimal output, as \<open>%i\<close> and \<open>%u\<close> of the printf family give it.\<close>

fun print_nat :: "nat \<Rightarrow> string" where
  "print_nat n =
     (if n < 10 then [''0123456789'' ! n]
      else print_nat (n div 10) @ [''0123456789'' ! (n mod 10)])"

declare print_nat.simps [simp del]

definition print_int :: "int \<Rightarrow> string" where
  "print_int i = (if i < 0 then CHR ''-'' # print_nat (nat (- i)) else print_nat (nat i))"

text \<open>
  The text built in lines 236 to 244, \<open>None\<close> where \<open>s\<close> stays null. \<open>strsignal\<close> is the
  C library's; the model takes it as a parameter. \<open>asprintf\<close> is taken to succeed.
\<close>

definition status_message :: "(int \<Rightarrow> string) \<Rightarrow> string \<Rightarrow> 32 word \<Rightarrow> string option" where
  "status_message strsignal cmd st =
     (if WIFEXITED st then
        (let code = WEXITSTATUS st
         in if code \<noteq> 0 \<and> code \<noteq> 255 then Some (cmd @ '': Exit '' @ print_int (sint code))
            else None)
      else if WIFSIGNALED st then Some (cmd @ '': '' @ strsignal (sint (WTERMSIG st)))
      else None)"

text \<open>Lines 235 to 250.\<close>

definition report_status :: "(int \<Rightarrow> string) \<Rightarrow> string \<Rightarrow> child_state \<Rightarrow> child_state" where
  "report_status strsignal cmd s =
     (if status s \<noteq> - 1 \<and> pty_fd s = - 1 then
        (let s1 = (case status_message strsignal cmd (status s) of
                     None \<Rightarrow> s
                   | Some m \<Rightarrow> s\<lparr>term_calls := term_calls s @ [Term_write Status_line m]\<rparr>)
         in s1\<lparr>status := - 1\<rparr>)
      else s)"

text \<open>
  What the outside world does during one pass of the loop of \<open>child_proc\<close>:
  \<open>paste_buffer\<close> is \<open>term.paste_buffer\<close> (\<open>None\<close> for the null pointer, else the bytes
  that \<open>term_send_paste\<close> sends), \<open>term_echoing\<close> is \<open>term.echoing\<close>, \<open>ans_write\<close>,
  \<open>ans_kill\<close>, \<open>ans_select\<close> and \<open>ans_read\<close> are the values returned by the system
  calls, \<open>pty_ready\<close> and \<open>win_ready\<close> the descriptors set in \<open>fds\<close> after \<open>select\<close>,
  and \<open>read_buf\<close> the buffer after \<open>read\<close>.
\<close>

record pass_env =
  paste_buffer :: "string option"
  term_echoing :: bool
  ans_write :: int
  ans_kill :: int
  ans_select :: int
  pty_ready :: bool
  win_ready :: bool
  ans_read :: int
  read_buf :: string

text \<open>
  Modelled from the spec: \<open>term_send_paste\<close> is defined in term.c, which is not part
  of the sources. The spec says of it: "if a paste buffer is staged, flush it to the
  child -- this is a write that may itself trigger kill-on-write-failure". The model
  sends the staged bytes with \<open>child_send\<close>.
\<close>

definition term_send_paste :: "string \<Rightarrow> pass_env \<Rightarrow> child_state \<Rightarrow> outcome" where
  "term_send_paste b e s = child_send (term_echoing e) b (ans_write e) (ans_kill e) s"

datatype pass_result = Leave outcome | Again child_state

text \<open>Lines 252 to 285: \<open>select\<close>, the read from the pty, and the return to the caller.\<close>

definition poll :: "pass_env \<Rightarrow> child_state \<Rightarrow> pass_result" where
  "poll e s =
     (if 0 < ans_select e then
        (let s1 =
           (if 0 \<le> pty_fd s \<and> pty_ready e then
              (if 0 < ans_read e then
                 (let chunk = take (nat (ans_read e)) (read_buf e);
                      s' = s\<lparr>pty_read := pty_read s @ [chunk],
                             term_calls := term_calls s @ [Term_write Pty_data chunk]\<rparr>
                  in if 0 \<le> log_fd s' then s'\<lparr>log_written := log_written s' @ [chunk]\<rparr>
                     else s')
               else s\<lparr>pty_fd := - 1\<rparr>)
            else s)
         in if win_ready e then Leave (Return s1) else Again s1)
      else Again s)"

text \<open>One pass of the loop (lines 232 to 285).\<close>

definition child_proc_pass ::
  "(int \<Rightarrow> string) \<Rightarrow> string \<Rightarrow> pass_env \<Rightarrow> child_state \<Rightarrow> pass_result" where
  "child_proc_pass strsignal cmd e s =
     (case (case paste_buffer e of
              None \<Rightarrow> Return s
            | Some b \<Rightarrow> term_send_paste b e s) of
        Exit c s1 \<Rightarrow> Leave (Exit c s1)
      | Return s1 \<Rightarrow> poll e (report_status strsignal cmd s1))"

text \<open>
  \<open>child_proc\<close> (lines 228 to 287). The events are the passes of the loop and,
  between two passes, the deliveries of SIGCHLD, each with the answers that \<open>waitpid\<close>
  gives to the handler; a delivery in the middle of a pass is not modelled. The loop
  leaves only through \<open>return\<close> or \<open>exit\<close>; when the events run out before that the
  result is \<open>None\<close>.
\<close>

datatype proc_event = Sigchld "waitpid_result list" | Pass pass_env

fun child_proc ::
  "hold_t \<Rightarrow> (int \<Rightarrow> string) \<Rightarrow> string \<Rightarrow> proc_event list \<Rightarrow> child_state \<Rightarrow> outcome option" where
  "child_proc hold strsignal cmd [] s = None"
| "child_proc hold strsignal cmd (Sigchld ws # es) s =
     (case sigchld hold SIGCHLD ws s of
        None \<Rightarrow> None
      | Some (Exit c s') \<Rightarrow> Some (Exit c s')
      | Some (Return s') \<Rightarrow> child_proc hold strsignal cmd es s')"
| "child_proc hold strsignal cmd (Pass e # es) s =
     (case child_proc_pass strsignal cmd e s of
        Leave r \<Rightarrow> Some r
      | Again s' \<Rightarrow> child_proc hold strsignal cmd es s')"

subsection \<open>child_conv_path\<close>








subsection \<open>Notions used in the statements\<close>

text \<open>An answer of \<open>waitpid\<close> on which the loop of \<open>sigchld\<close> breaks (lines 73 to 79).\<close>

definition nothing_left :: "waitpid_result \<Rightarrow> bool" where
  "nothing_left w = (chld_pid w \<le> 0 \<and> \<not> (chld_pid w = - 1 \<and> wp_errno w = EINTR))"

text \<open>The state after lines 83 and 84.\<close>

definition reaped :: "child_state \<Rightarrow> waitpid_result \<Rightarrow> child_state" where
  "reaped s w = s\<lparr>pid := 0, status := chld_status w\<rparr>"

fun state_of :: "outcome \<Rightarrow> child_state" where
  "state_of (Exit c s) = s"
| "state_of (Return s) = s"

text \<open>The buffers passed to \<open>term_write\<close> from one place, and from all places.\<close>

fun written_at :: "site \<Rightarrow> term_call list \<Rightarrow> string list" where
  "written_at p [] = []"
| "written_at p (Term_write q b # cs) = (if p = q then b # written_at p cs else written_at p cs)"
| "written_at p (Term_reset_screen # cs) = written_at p cs"


fun pass_state :: "pass_result \<Rightarrow> child_state" where
  "pass_state (Leave r) = state_of r"
| "pass_state (Again s) = s"


text \<open>
  From \<open>s\<close> to \<open>s'\<close> the chunks \<open>cs\<close> were read from the pty, and they were passed
  on to the terminal and, with the log open, to the log file.
\<close>

definition forwarded :: "child_state \<Rightarrow> child_state \<Rightarrow> string list \<Rightarrow> bool" where
  "forwarded s s' cs =
     (pty_read s' = pty_read s @ cs \<and>
      written_at Pty_data (term_calls s') = written_at Pty_data (term_calls s) @ cs \<and>
      log_written s' = log_written s @ (if 0 \<le> log_fd s then cs else []) \<and>
      log_fd s' = log_fd s)"


text \<open>
  The number of status lines written so far, and the number that can still come: a
  status is pending, or a child is still there to leave one.
\<close>

definition status_lines :: "child_state \<Rightarrow> nat" where
  "status_lines s = length (written_at Status_line (term_calls s))"

definition reports_left :: "child_state \<Rightarrow> nat" where
  "reports_left s = (if pid s = 0 \<and> status s = - 1 then 0 else 1)"

text \<open>
  A status is pending only after the child was reaped. This holds in the initial state
  and is kept by every operation of the module.
\<close>

definition pending_reaped :: "child_state \<Rightarrow> bool" where
  "pending_reaped s = (status s = - 1 \<or> pid s = 0)"

section \<open>Properties\<close>

subsection \<open>Wait statuses and the fault signals\<close>

lemmas signal_numbers =
  SIGHUP_def SIGINT_def SIGQUIT_def SIGILL_def SIGTRAP_def SIGABRT_def SIGFPE_def
  SIGKILL_def SIGBUS_def SIGSEGV_def SIGSYS_def SIGPIPE_def SIGTERM_def SIGCHLD_def

lemmas wait_macros = WIFEXITED_def WIFSIGNALED_def WEXITSTATUS_def WTERMSIG_def

lemma bit_shifted_one:
  "bit (push_bit k (1 :: 32 word)) n = (n = k \<and> k < 32)"
  by (auto simp: bit_exp_iff)

lemma error_sigs_bit:
  "bit error_sigs n = (n \<in> {4, 5, 6, 8, 10, 11, 12, 13})"
proof -
  have "bit error_sigs n =
     (n = nat SIGILL \<or> n = nat SIGTRAP \<or> n = nat SIGABRT \<or> n = nat SIGFPE \<or>
      n = nat SIGBUS \<or> n = nat SIGSEGV \<or> n = nat SIGPIPE \<or> n = nat SIGSYS)"
    unfolding error_sigs_def bit_or_iff bit_shifted_one
    by (simp add: signal_numbers)
  then show ?thesis by (auto simp: signal_numbers)
qed

lemma and_single_bit:
  fixes w :: "32 word"
  shows "(w AND push_bit n 1 \<noteq> 0) = bit w n"
proof (cases "bit w n")
  case True
  then have n: "n < 32" using bit_imp_le_length [of w n] by simp
  have "bit (w AND push_bit n 1) n" using True n by (simp add: bit_simps)
  then have "w AND push_bit n 1 \<noteq> 0" by auto
  with True show ?thesis by simp
next
  case False
  have "w AND push_bit n 1 = 0"
    by (rule bit_word_eqI) (use False in \<open>auto simp: bit_simps\<close>)
  with False show ?thesis by simp
qed

lemma WIFSIGNALED_unat:
  "WIFSIGNALED w = (0 < unat (WTERMSIG w) \<and> unat (WTERMSIG w) < 127)"
  by (simp add: WIFSIGNALED_def WTERMSIG_def word_less_nat_alt)

lemma WIFEXITED_WTERMSIG: "WIFEXITED w \<Longrightarrow> WTERMSIG w = 0"
proof -
  assume "WIFEXITED w"
  then have z: "w AND 0xff = 0" by (simp add: WIFEXITED_def)
  have "w AND 0x7f = (w AND 0xff) AND 0x7f"
    by (simp add: and.assoc)
  then show ?thesis using z by (simp add: WTERMSIG_def)
qed

lemma WIFEXITED_not_signaled: "WIFEXITED w \<Longrightarrow> \<not> WIFSIGNALED w"
  by (simp add: WIFEXITED_WTERMSIG WIFSIGNALED_unat)

lemma exit_now_error_wrapped:
  "\<not> WIFEXITED st \<Longrightarrow>
   exit_now HOLD_ERROR False st = (unat (WTERMSIG st) mod 32 \<in> {4, 5, 6, 8, 10, 11, 12, 13})"
  unfolding exit_now_def and_single_bit error_sigs_bit by simp

lemma exit_now_error:
  assumes "WIFEXITED st \<or> unat (WTERMSIG st) < 32"
  shows "exit_now HOLD_ERROR False st =
     ((WIFEXITED st \<and> WEXITSTATUS st = 0) \<or>
      (WIFSIGNALED st \<and>
       uint (WTERMSIG st) \<in> {SIGILL, SIGTRAP, SIGABRT, SIGFPE, SIGBUS, SIGSEGV, SIGPIPE, SIGSYS}))"
proof (cases "WIFEXITED st")
  case True
  then have "\<not> WIFSIGNALED st" by (rule WIFEXITED_not_signaled)
  with True show ?thesis by (simp add: exit_now_def)
next
  case False
  with assms have small: "unat (WTERMSIG st) < 32" by simp
  have "exit_now HOLD_ERROR False st = (unat (WTERMSIG st) \<in> {4, 5, 6, 8, 10, 11, 12, 13})"
    using exit_now_error_wrapped [OF False] small by simp
  moreover have "unat (WTERMSIG st) \<in> {4, 5, 6, 8, 10, 11, 12, 13} \<Longrightarrow> WIFSIGNALED st"
    by (auto simp: WIFSIGNALED_unat)
  moreover have "uint (WTERMSIG st) = int (unat (WTERMSIG st))" by simp
  ultimately show ?thesis using False
    by (auto simp: signal_numbers simp del: of_nat_unat)
qed

subsection \<open>The reaping loop\<close>

lemma sigchld_loop_reaped:
  "pid s = 0 \<Longrightarrow> sigchld_loop h ws s = None \<or> sigchld_loop h ws s = Some (Return s)"
  by (induction ws) (auto simp: try_again_def)

lemma sigchld_loop_skip:
  "list_all (try_again s) pre \<Longrightarrow> sigchld_loop h (pre @ ws) s = sigchld_loop h ws s"
  by (induction pre) auto

lemma sigchld_loop_progress:
  "\<exists>w \<in> set ws. nothing_left w \<Longrightarrow> sigchld_loop h ws s \<noteq> None"
  by (induction ws arbitrary: s) (auto simp: try_again_def nothing_left_def Let_def)

lemma sigchld_loop_capture:
  "0 < chld_pid w \<Longrightarrow> chld_pid w = pid s \<Longrightarrow>
   sigchld_loop h (w # ws) s =
     (if exit_now h (killed s) (chld_status w) then Some (Exit 0 (reaped s w))
      else sigchld_loop h ws (reaped s w))"
  by (auto simp: try_again_def reaped_def Let_def)

lemma sigchld_loop_held:
  "sigchld_loop h ws (reaped s w) = None \<or>
   sigchld_loop h ws (reaped s w) = Some (Return (reaped s w))"
  by (rule sigchld_loop_reaped) (simp add: reaped_def)

lemma sigchld_loop_held_returns:
  "\<exists>w' \<in> set ws. nothing_left w' \<Longrightarrow>
   sigchld_loop h ws (reaped s w) = Some (Return (reaped s w))"
  using sigchld_loop_held [of h ws s w] sigchld_loop_progress [of ws h "reaped s w"] by auto

text \<open>
  Claim C1, as the code has it. Under the policy \<open>HOLD_DEFAULT\<close>, when no kill was
  requested and \<open>waitpid\<close> answers with the status of the tracked child, the handler
  exits the process with status 0 exactly when the child died from a signal or its
  exit code is not 255. Only for the exit code 255 without a signal death does it hold
  the session: the handler then returns, with the status recorded and \<open>pid\<close> reset,
  once \<open>waitpid\<close> reports that nothing is left.
\<close>

theorem sigchld_default_policy:
  assumes "\<not> killed s" and "0 < chld_pid w" and "chld_pid w = pid s"
  shows "((\<exists>c t. sigchld_loop HOLD_DEFAULT (w # ws) s = Some (Exit c t)) =
            (WIFSIGNALED (chld_status w) \<or> WEXITSTATUS (chld_status w) \<noteq> 255)) \<and>
         (WIFSIGNALED (chld_status w) \<or> WEXITSTATUS (chld_status w) \<noteq> 255 \<longrightarrow>
            sigchld_loop HOLD_DEFAULT (w # ws) s = Some (Exit 0 (reaped s w))) \<and>
         (\<not> WIFSIGNALED (chld_status w) \<and> WEXITSTATUS (chld_status w) = 255 \<and>
          (\<exists>w' \<in> set ws. nothing_left w') \<longrightarrow>
            sigchld_loop HOLD_DEFAULT (w # ws) s = Some (Return (reaped s w)))"
proof -
  let ?go = "WIFSIGNALED (chld_status w) \<or> WEXITSTATUS (chld_status w) \<noteq> 255"
  have dec: "exit_now HOLD_DEFAULT (killed s) (chld_status w) = ?go"
    using assms(1) by (simp add: exit_now_def)
  have step: "sigchld_loop HOLD_DEFAULT (w # ws) s =
      (if ?go then Some (Exit 0 (reaped s w)) else sigchld_loop HOLD_DEFAULT ws (reaped s w))"
    using sigchld_loop_capture [OF assms(2,3), of HOLD_DEFAULT ws] dec by simp
  show ?thesis
    using step sigchld_loop_held [of HOLD_DEFAULT ws s w]
      sigchld_loop_held_returns [of ws HOLD_DEFAULT s w]
    by auto
qed

text \<open>
  The rule at work: a child that exits with code 255 (status \<open>0xff00\<close>) is held.
\<close>

theorem sigchld_default_policy_witness:
  "\<not> killed (initial_state\<lparr>pid := 7\<rparr>) \<and>
   \<not> WIFSIGNALED 0xff00 \<and> WEXITSTATUS 0xff00 = 255 \<and>
   sigchld_loop HOLD_DEFAULT
     [\<lparr>chld_pid = 7, chld_status = 0xff00, wp_errno = 0\<rparr>,
      \<lparr>chld_pid = 0, chld_status = 0, wp_errno = 0\<rparr>]
     (initial_state\<lparr>pid := 7\<rparr>) =
   Some (Return (initial_state\<lparr>pid := 0, status := 0xff00\<rparr>))"
proof -
  let ?s = "initial_state\<lparr>pid := 7\<rparr>"
  let ?w = "\<lparr>chld_pid = 7, chld_status = 0xff00, wp_errno = 0\<rparr>"
  let ?ws = "[\<lparr>chld_pid = 0, chld_status = 0, wp_errno = 0\<rparr>]"
  have h1: "\<not> killed ?s" by (simp add: initial_state_def)
  have h2: "0 < chld_pid ?w" by simp
  have h3: "chld_pid ?w = pid ?s" by simp
  have m: "\<not> WIFSIGNALED 0xff00 \<and> WEXITSTATUS 0xff00 = 255"
    by (simp add: wait_macros)
  have n: "\<exists>w' \<in> set ?ws. nothing_left w'" by (simp add: nothing_left_def)
  from sigchld_default_policy [OF h1 h2 h3, of ?ws] m n
  have "sigchld_loop HOLD_DEFAULT (?w # ?ws) ?s = Some (Return (reaped ?s ?w))" by simp
  then show ?thesis using h1 m by (simp add: reaped_def)
qed

text \<open>
  Claim C1 as stated says that a signal death is held. A child killed by SIGKILL
  (status 9) under \<open>HOLD_DEFAULT\<close>: the handler exits.
\<close>

theorem sigchld_default_signal_death_counterexample:
  "WIFSIGNALED 9 \<and> \<not> killed (initial_state\<lparr>pid := 7\<rparr>) \<and>
   sigchld_loop HOLD_DEFAULT
     [\<lparr>chld_pid = 7, chld_status = 9, wp_errno = 0\<rparr>,
      \<lparr>chld_pid = 0, chld_status = 0, wp_errno = 0\<rparr>]
     (initial_state\<lparr>pid := 7\<rparr>) =
   Some (Exit 0 (initial_state\<lparr>pid := 0, status := 9\<rparr>))"
  by (simp add: initial_state_def try_again_def exit_now_def wait_macros)

text \<open>
  The policy \<open>HOLD_ERROR\<close> for the statuses on which the shift of line 102 is defined,
  a normal exit or a signal number below 32. When no kill was requested and
  \<open>waitpid\<close> answers with such a status of the tracked child, the handler exits the
  process (with status 0) exactly when the child exited with code 0 or was terminated
  by one of SIGILL, SIGTRAP, SIGABRT, SIGFPE, SIGBUS, SIGSEGV, SIGPIPE, SIGSYS. After
  a normal exit with another code, and after a death from any other signal below 32,
  it holds the session: the handler returns, with the status recorded, once
  \<open>waitpid\<close> reports that nothing is left.
\<close>

theorem sigchld_error_policy_below_32:
  assumes "\<not> killed s" and "0 < chld_pid w" and "chld_pid w = pid s"
    and "WIFEXITED (chld_status w) \<or> unat (WTERMSIG (chld_status w)) < 32"
  shows "((\<exists>c t. sigchld_loop HOLD_ERROR (w # ws) s = Some (Exit c t)) =
            ((WIFEXITED (chld_status w) \<and> WEXITSTATUS (chld_status w) = 0) \<or>
             (WIFSIGNALED (chld_status w) \<and>
              uint (WTERMSIG (chld_status w)) \<in>
                {SIGILL, SIGTRAP, SIGABRT, SIGFPE, SIGBUS, SIGSEGV, SIGPIPE, SIGSYS}))) \<and>
         ((WIFEXITED (chld_status w) \<and> WEXITSTATUS (chld_status w) = 0) \<or>
          (WIFSIGNALED (chld_status w) \<and>
           uint (WTERMSIG (chld_status w)) \<in>
             {SIGILL, SIGTRAP, SIGABRT, SIGFPE, SIGBUS, SIGSEGV, SIGPIPE, SIGSYS}) \<longrightarrow>
            sigchld_loop HOLD_ERROR (w # ws) s = Some (Exit 0 (reaped s w))) \<and>
         (((WIFEXITED (chld_status w) \<and> WEXITSTATUS (chld_status w) \<noteq> 0) \<or>
           (WIFSIGNALED (chld_status w) \<and>
            uint (WTERMSIG (chld_status w)) \<notin>
              {SIGILL, SIGTRAP, SIGABRT, SIGFPE, SIGBUS, SIGSEGV, SIGPIPE, SIGSYS})) \<and>
          (\<exists>w' \<in> set ws. nothing_left w') \<longrightarrow>
            sigchld_loop HOLD_ERROR (w # ws) s = Some (Return (reaped s w)))"
proof -
  define go where "go =
    ((WIFEXITED (chld_status w) \<and> WEXITSTATUS (chld_status w) = 0) \<or>
     (WIFSIGNALED (chld_status w) \<and>
      uint (WTERMSIG (chld_status w)) \<in>
        {SIGILL, SIGTRAP, SIGABRT, SIGFPE, SIGBUS, SIGSEGV, SIGPIPE, SIGSYS}))"
  define keep where "keep =
    ((WIFEXITED (chld_status w) \<and> WEXITSTATUS (chld_status w) \<noteq> 0) \<or>
     (WIFSIGNALED (chld_status w) \<and>
      uint (WTERMSIG (chld_status w)) \<notin>
        {SIGILL, SIGTRAP, SIGABRT, SIGFPE, SIGBUS, SIGSEGV, SIGPIPE, SIGSYS}))"
  define r where "r = sigchld_loop HOLD_ERROR (w # ws) s"
  define r' where "r' = sigchld_loop HOLD_ERROR ws (reaped s w)"
  have dec: "exit_now HOLD_ERROR (killed s) (chld_status w) = go"
    unfolding go_def using assms(1) exit_now_error [OF assms(4)] by simp
  have step: "r = (if go then Some (Exit 0 (reaped s w)) else r')"
    unfolding r_def r'_def
    using sigchld_loop_capture [OF assms(2,3), of HOLD_ERROR ws] dec by simp
  have held: "r' = None \<or> r' = Some (Return (reaped s w))"
    unfolding r'_def by (rule sigchld_loop_held)
  have returns: "(\<exists>w' \<in> set ws. nothing_left w') \<Longrightarrow> r' = Some (Return (reaped s w))"
    unfolding r'_def by (rule sigchld_loop_held_returns)
  have excl: "keep \<Longrightarrow> \<not> go"
    unfolding keep_def go_def
    using WIFEXITED_not_signaled [of "chld_status w"] by blast
  have first: "(\<exists>c t. r = Some (Exit c t)) = go"
    using step held by auto
  have second: "go \<longrightarrow> r = Some (Exit 0 (reaped s w))"
    using step by simp
  have third: "keep \<and> (\<exists>w' \<in> set ws. nothing_left w') \<longrightarrow> r = Some (Return (reaped s w))"
    using step excl returns by auto
  from first second third show ?thesis
    unfolding go_def keep_def r_def by blast
qed

text \<open>
  The rule at work: a segmentation fault (status 11) exits, an exit with code 1
  (status \<open>0x100\<close>) is held.
\<close>

theorem sigchld_error_policy_below_32_witness:
  "\<not> killed (initial_state\<lparr>pid := 7\<rparr>) \<and>
   WIFSIGNALED 11 \<and> uint (WTERMSIG 11) = SIGSEGV \<and>
   sigchld_loop HOLD_ERROR
     [\<lparr>chld_pid = 7, chld_status = 11, wp_errno = 0\<rparr>] (initial_state\<lparr>pid := 7\<rparr>) =
   Some (Exit 0 (initial_state\<lparr>pid := 0, status := 11\<rparr>)) \<and>
   WIFEXITED 0x100 \<and> WEXITSTATUS 0x100 = 1 \<and>
   sigchld_loop HOLD_ERROR
     [\<lparr>chld_pid = 7, chld_status = 0x100, wp_errno = 0\<rparr>,
      \<lparr>chld_pid = 0, chld_status = 0, wp_errno = 0\<rparr>]
     (initial_state\<lparr>pid := 7\<rparr>) =
   Some (Return (initial_state\<lparr>pid := 0, status := 0x100\<rparr>))"
proof -
  let ?s = "initial_state\<lparr>pid := 7\<rparr>"
  let ?w = "\<lparr>chld_pid = 7, chld_status = 11, wp_errno = 0\<rparr>"
  let ?v = "\<lparr>chld_pid = 7, chld_status = 0x100, wp_errno = 0\<rparr>"
  let ?ws = "[\<lparr>chld_pid = 0, chld_status = 0, wp_errno = 0\<rparr>]"
  have h1: "\<not> killed ?s" by (simp add: initial_state_def)
  have m: "WIFSIGNALED 11 \<and> uint (WTERMSIG 11) = SIGSEGV \<and> WIFEXITED 0x100 \<and>
           WEXITSTATUS 0x100 = 1"
    by (simp add: wait_macros signal_numbers)
  have n: "\<exists>w' \<in> set ?ws. nothing_left w'" by (simp add: nothing_left_def)
  have d: "unat (WTERMSIG (chld_status ?w)) < 32" "WIFEXITED (chld_status ?v)"
    by (simp_all add: wait_macros)
  have a: "sigchld_loop HOLD_ERROR [?w] ?s = Some (Exit 0 (reaped ?s ?w))"
    using sigchld_error_policy_below_32 [of ?s ?w "[]"] h1 m d(1) by simp
  have b: "sigchld_loop HOLD_ERROR (?v # ?ws) ?s = Some (Return (reaped ?s ?v))"
    using sigchld_error_policy_below_32 [of ?s ?v ?ws] h1 m n d(2) by simp
  from a b h1 m show ?thesis by (simp add: reaped_def)
qed

text \<open>
  Claim C2 says that under \<open>HOLD_ERROR\<close> the handler holds the session for every
  terminating signal other than SIGILL, SIGTRAP, SIGABRT, SIGFPE, SIGBUS, SIGSEGV,
  SIGPIPE and SIGSYS. A child terminated by signal 36 (status \<open>0x24\<close>), with no kill
  requested: 36 is none of the eight, the shift count 36 is taken modulo 32 and tests
  the bit of SIGILL, and the handler exits the process.
\<close>

theorem sigchld_error_policy_signal_36:
  "WIFSIGNALED 0x24 \<and> uint (WTERMSIG 0x24) = 36 \<and>
   36 \<notin> {SIGILL, SIGTRAP, SIGABRT, SIGFPE, SIGBUS, SIGSEGV, SIGPIPE, SIGSYS} \<and>
   \<not> killed (initial_state\<lparr>pid := 7\<rparr>) \<and>
   sigchld_loop HOLD_ERROR
     [\<lparr>chld_pid = 7, chld_status = 0x24, wp_errno = 0\<rparr>,
      \<lparr>chld_pid = 0, chld_status = 0, wp_errno = 0\<rparr>]
     (initial_state\<lparr>pid := 7\<rparr>) =
   Some (Exit 0 (initial_state\<lparr>pid := 0, status := 0x24\<rparr>))"
  by (simp add: initial_state_def try_again_def exit_now_def wait_macros error_sigs_def
      signal_numbers)

text \<open>
  Claim C3. \<open>child_kill\<close>: when there is no tracked child, or \<open>point_blank\<close> is set, or
  \<open>kill\<close> on the child's process group fails, the process exits at once with status
  0; so \<open>child_kill(true)\<close> exits from every state. Otherwise SIGHUP has been sent to
  the process group, \<open>killed\<close> is set, and the call returns; and from every state
  with \<open>killed\<close> set, as soon as \<open>waitpid\<close> answers with the status of the tracked
  child the handler exits with status 0, whatever the policy \<open>hold\<close> and whatever the
  status. The flag stays set until then (\<open>child_proc_keeps_killed\<close> below).
\<close>

theorem child_kill_terminates:
  "(pid s = 0 \<or> point_blank \<or> kill_ret < 0 \<longrightarrow>
      (\<exists>t. child_kill point_blank kill_ret s = Exit 0 t)) \<and>
   (\<exists>t. child_kill True kill_ret s = Exit 0 t) \<and>
   (pid s \<noteq> 0 \<and> \<not> point_blank \<and> 0 \<le> kill_ret \<longrightarrow>
      child_kill point_blank kill_ret s =
        Return (s\<lparr>sys_calls := sys_calls s @ [Sys_kill (- pid s) SIGHUP], killed := True\<rparr>)) \<and>
   (\<forall>hold pre w ws t.
      killed t \<and> list_all (try_again t) pre \<and> 0 < chld_pid w \<and> chld_pid w = pid t \<longrightarrow>
        sigchld_loop hold (pre @ w # ws) t = Some (Exit 0 (reaped t w)))"
proof -
  have a: "pid s = 0 \<or> point_blank \<or> kill_ret < 0 \<longrightarrow>
      (\<exists>t. child_kill point_blank kill_ret s = Exit 0 t)"
    by (auto simp: child_kill_def Let_def)
  have b: "\<exists>t. child_kill True kill_ret s = Exit 0 t"
    by (auto simp: child_kill_def Let_def)
  have c: "pid s \<noteq> 0 \<and> \<not> point_blank \<and> 0 \<le> kill_ret \<longrightarrow>
      child_kill point_blank kill_ret s =
        Return (s\<lparr>sys_calls := sys_calls s @ [Sys_kill (- pid s) SIGHUP], killed := True\<rparr>)"
    by (auto simp: child_kill_def Let_def)
  have d: "sigchld_loop hold (pre @ w # ws) t = Some (Exit 0 (reaped t w))"
    if k: "killed t"
      and pre: "list_all (try_again t) pre" and w: "0 < chld_pid w" "chld_pid w = pid t"
    for hold pre w ws t
  proof -
    from k have "exit_now hold (killed t) (chld_status w)" by (simp add: exit_now_def)
    then have "sigchld_loop hold (w # ws) t = Some (Exit 0 (reaped t w))"
      using sigchld_loop_capture [OF w, of hold ws] by simp
    then show ?thesis using sigchld_loop_skip [OF pre, of hold "w # ws"] by simp
  qed
  from a b c d show ?thesis by blast
qed

text \<open>
  A deferred kill followed by the reaping of the child under a policy that would hold,
  and a kill whose signal cannot be delivered.
\<close>

theorem child_kill_terminates_witness:
  "child_kill False 0 (initial_state\<lparr>pid := 7\<rparr>) =
     Return (initial_state\<lparr>pid := 7, sys_calls := [Sys_kill (- 7) SIGHUP], killed := True\<rparr>) \<and>
   sigchld_loop HOLD_other
     [\<lparr>chld_pid = 9, chld_status = 0, wp_errno = 0\<rparr>,
      \<lparr>chld_pid = 7, chld_status = 0x100, wp_errno = 0\<rparr>]
     (initial_state\<lparr>pid := 7, sys_calls := [Sys_kill (- 7) SIGHUP], killed := True\<rparr>) =
   Some (Exit 0
     (initial_state\<lparr>pid := 0, status := 0x100, sys_calls := [Sys_kill (- 7) SIGHUP],
        killed := True\<rparr>)) \<and>
   (\<exists>t. child_kill False (- 1) (initial_state\<lparr>pid := 7\<rparr>) = Exit 0 t)"
proof -
  let ?s = "initial_state\<lparr>pid := 7\<rparr>"
  let ?t = "initial_state\<lparr>pid := 7, sys_calls := [Sys_kill (- 7) SIGHUP], killed := True\<rparr>"
  let ?pre = "[\<lparr>chld_pid = 9, chld_status = 0, wp_errno = 0\<rparr>]"
  let ?w = "\<lparr>chld_pid = 7, chld_status = 0x100, wp_errno = 0\<rparr>"
  note th = child_kill_terminates [of ?s False 0]
  have k: "child_kill False 0 ?s = Return ?t"
    using th by (simp add: initial_state_def)
  have pre: "list_all (try_again ?t) ?pre" by (simp add: try_again_def)
  have "sigchld_loop HOLD_other (?pre @ ?w # []) ?t = Some (Exit 0 (reaped ?t ?w))"
    by (rule th [THEN conjunct2, THEN conjunct2, THEN conjunct2, rule_format])
       (simp add: try_again_def)
  moreover have "\<exists>t. child_kill False (- 1) ?s = Exit 0 t"
    using child_kill_terminates [of ?s False "- 1"] by simp
  ultimately show ?thesis using k by (simp add: reaped_def)
qed

text \<open>
  Claim C4. The loop of \<open>sigchld\<close> drops every answer of \<open>waitpid\<close> that is for another
  process or reports an interruption, and goes on; it returns with the state unchanged
  at the first answer that reports nothing left; at the answer for the tracked child it
  records the status, resets \<open>pid\<close> and decides between exit and going on. It returns
  or exits whenever some answer reports nothing left. Once \<open>pid\<close> is reset, no answer
  leads to the decision again: the loop can only return the state as it is, and the
  handler only re-installs itself.
\<close>

theorem sigchld_reaping:
  "(try_again s w \<longrightarrow> sigchld_loop hold (w # ws) s = sigchld_loop hold ws s) \<and>
   (list_all (try_again s) pre \<and> nothing_left w \<longrightarrow>
      sigchld_loop hold (pre @ w # ws) s = Some (Return s)) \<and>
   (list_all (try_again s) pre \<and> 0 < chld_pid w \<and> chld_pid w = pid s \<longrightarrow>
      sigchld_loop hold (pre @ w # ws) s =
        (if exit_now hold (killed s) (chld_status w) then Some (Exit 0 (reaped s w))
         else sigchld_loop hold ws (reaped s w))) \<and>
   ((\<exists>w' \<in> set ws. nothing_left w') \<longrightarrow> sigchld_loop hold ws s \<noteq> None) \<and>
   (pid s = 0 \<longrightarrow>
      (sigchld_loop hold ws s = None \<or> sigchld_loop hold ws s = Some (Return s)) \<and>
      (sigchld hold sig ws s = None \<or>
       sigchld hold sig ws s =
         Some (Return (s\<lparr>sys_calls := sys_calls s @ [Sys_signal sig Handler_sigchld]\<rparr>))))"
proof -
  have a: "try_again s w \<longrightarrow> sigchld_loop hold (w # ws) s = sigchld_loop hold ws s"
    by simp
  have b: "list_all (try_again s) pre \<and> nothing_left w \<longrightarrow>
      sigchld_loop hold (pre @ w # ws) s = Some (Return s)"
  proof
    assume h: "list_all (try_again s) pre \<and> nothing_left w"
    then have "sigchld_loop hold (w # ws) s = Some (Return s)"
      by (auto simp: nothing_left_def try_again_def)
    then show "sigchld_loop hold (pre @ w # ws) s = Some (Return s)"
      using h sigchld_loop_skip [of s pre hold "w # ws"] by simp
  qed
  have c: "list_all (try_again s) pre \<and> 0 < chld_pid w \<and> chld_pid w = pid s \<longrightarrow>
      sigchld_loop hold (pre @ w # ws) s =
        (if exit_now hold (killed s) (chld_status w) then Some (Exit 0 (reaped s w))
         else sigchld_loop hold ws (reaped s w))"
    using sigchld_loop_skip [of s pre hold "w # ws"] sigchld_loop_capture [of w s hold ws]
    by simp
  have d: "(\<exists>w' \<in> set ws. nothing_left w') \<longrightarrow> sigchld_loop hold ws s \<noteq> None"
    using sigchld_loop_progress [of ws hold s] by blast
  have e: "pid s = 0 \<longrightarrow>
      (sigchld_loop hold ws s = None \<or> sigchld_loop hold ws s = Some (Return s)) \<and>
      (sigchld hold sig ws s = None \<or>
       sigchld hold sig ws s =
         Some (Return (s\<lparr>sys_calls := sys_calls s @ [Sys_signal sig Handler_sigchld]\<rparr>)))"
    using sigchld_loop_reaped [of s hold ws] by (auto simp: sigchld_def)
  from a b c d e show ?thesis by blast
qed

text \<open>
  Another child and an interruption are passed over, the tracked child 7 is reaped and
  held, and a later answer for the same process id is dropped.
\<close>

theorem sigchld_reaping_witness:
  "sigchld_loop HOLD_other
     [\<lparr>chld_pid = 9, chld_status = 0, wp_errno = 0\<rparr>,
      \<lparr>chld_pid = - 1, chld_status = 0, wp_errno = EINTR\<rparr>,
      \<lparr>chld_pid = 7, chld_status = 0x100, wp_errno = 0\<rparr>,
      \<lparr>chld_pid = 7, chld_status = 0x200, wp_errno = 0\<rparr>,
      \<lparr>chld_pid = 0, chld_status = 0, wp_errno = 0\<rparr>]
     (initial_state\<lparr>pid := 7\<rparr>) =
   Some (Return (initial_state\<lparr>pid := 0, status := 0x100\<rparr>))"
proof -
  let ?s = "initial_state\<lparr>pid := 7\<rparr>"
  let ?s' = "initial_state\<lparr>pid := 0, status := 0x100\<rparr>"
  let ?pre = "[\<lparr>chld_pid = 9, chld_status = 0, wp_errno = 0\<rparr>,
      \<lparr>chld_pid = - 1, chld_status = 0, wp_errno = EINTR\<rparr>]"
  let ?w = "\<lparr>chld_pid = 7, chld_status = 0x100, wp_errno = 0\<rparr>"
  let ?pre' = "[\<lparr>chld_pid = 7, chld_status = 0x200, wp_errno = 0\<rparr>]"
  let ?z = "\<lparr>chld_pid = 0, chld_status = 0, wp_errno = 0\<rparr>"
  have pre: "list_all (try_again ?s) ?pre" by (simp add: try_again_def)
  have r: "reaped ?s ?w = ?s'" by (simp add: reaped_def)
  have pre': "list_all (try_again ?s') ?pre'" by (simp add: try_again_def)
  have z: "nothing_left ?z" by (simp add: nothing_left_def)
  have c: "sigchld_loop HOLD_other (?pre @ ?w # ?pre' @ [?z]) ?s =
      (if exit_now HOLD_other (killed ?s) (chld_status ?w) then Some (Exit 0 (reaped ?s ?w))
       else sigchld_loop HOLD_other (?pre' @ [?z]) (reaped ?s ?w))"
    by (rule sigchld_reaping [THEN conjunct2, THEN conjunct2, THEN conjunct1, rule_format])
       (simp add: try_again_def)
  have nx: "\<not> exit_now HOLD_other (killed ?s) (chld_status ?w)"
    by (simp add: exit_now_def initial_state_def)
  have b: "sigchld_loop HOLD_other (?pre' @ ?z # []) (reaped ?s ?w) =
      Some (Return (reaped ?s ?w))"
    by (rule sigchld_reaping [THEN conjunct2, THEN conjunct1, rule_format])
       (simp add: try_again_def nothing_left_def reaped_def)
  from c nx b have "sigchld_loop HOLD_other (?pre @ ?w # ?pre' @ [?z]) ?s =
      Some (Return (reaped ?s ?w))"
    by (simp only: if_False append_Cons append_Nil)
  then show ?thesis by (simp only: r append_Cons append_Nil)
qed

subsection \<open>Writing to the child\<close>

text \<open>
  Claim C7, as the code has it. \<open>child_write\<close> passes the bytes to \<open>write\<close> when the
  pty descriptor is open, and returns whatever \<open>write\<close> answers: the answer is not
  looked at. Only when the descriptor is not open does it call \<open>child_kill(false)\<close>,
  and then nothing is written.
\<close>

theorem child_write_behaviour:
  "(0 \<le> pty_fd s \<longrightarrow>
      child_write buf write_ret kill_ret s = Return (s\<lparr>pty_written := pty_written s @ [buf]\<rparr>)) \<and>
   (pty_fd s < 0 \<longrightarrow>
      child_write buf write_ret kill_ret s = child_kill False kill_ret s \<and>
      pty_written (state_of (child_write buf write_ret kill_ret s)) = pty_written s)"
  by (auto simp: child_write_def child_kill_def Let_def)

text \<open>A write after the pty is closed starts the kill; a write to an open pty is passed on.\<close>

theorem child_write_behaviour_witness:
  "pty_fd (initial_state\<lparr>pid := 7\<rparr>) < 0 \<and>
   child_write ''x'' 1 0 (initial_state\<lparr>pid := 7\<rparr>) =
     Return (initial_state\<lparr>pid := 7, sys_calls := [Sys_kill (- 7) SIGHUP], killed := True\<rparr>) \<and>
   0 \<le> pty_fd (initial_state\<lparr>pid := 7, pty_fd := 3\<rparr>) \<and>
   child_write ''x'' 1 0 (initial_state\<lparr>pid := 7, pty_fd := 3\<rparr>) =
     Return (initial_state\<lparr>pid := 7, pty_fd := 3, pty_written := [''x'']\<rparr>)"
proof -
  let ?s = "initial_state\<lparr>pid := 7\<rparr>"
  let ?t = "initial_state\<lparr>pid := 7, pty_fd := 3\<rparr>"
  have c: "pty_fd ?s < 0" by (simp add: initial_state_def)
  have o: "0 \<le> pty_fd ?t" by simp
  have "child_write ''x'' 1 0 ?s = child_kill False 0 ?s"
    using child_write_behaviour [of ?s "''x''" 1 0] c by simp
  moreover have "child_write ''x'' 1 0 ?t = Return (?t\<lparr>pty_written := pty_written ?t @ [''x'']\<rparr>)"
    using child_write_behaviour [of ?t "''x''" 1 0] o by simp
  ultimately show ?thesis
    by (simp add: child_kill_def initial_state_def)
qed

text \<open>
  Claim C7 as stated says that a failed write to the pty starts \<open>kill(false)\<close>. A write
  that fails (answer \<open>-1\<close>) on an open descriptor: no signal is sent and \<open>killed\<close> stays
  unset.
\<close>

theorem child_write_failure_counterexample:
  "child_write ''x'' (- 1) 0 (initial_state\<lparr>pid := 7, pty_fd := 3\<rparr>) =
     Return (initial_state\<lparr>pid := 7, pty_fd := 3, pty_written := [''x'']\<rparr>) \<and>
   \<not> killed (initial_state\<lparr>pid := 7, pty_fd := 3, pty_written := [''x'']\<rparr>) \<and>
   sys_calls (initial_state\<lparr>pid := 7, pty_fd := 3, pty_written := [''x'']\<rparr>) = []"
  by (simp add: child_write_def initial_state_def)

text \<open>
  Claim C10. When \<open>cs_wcntombn\<close> returns a length that is not positive, \<open>child_sendw\<close>
  returns with the state and every trace unchanged: nothing is written to the pty,
  the terminal is not called, and \<open>child_kill\<close> is not called, whether the pty is
  open or not.
\<close>

theorem child_sendw_unconvertible:
  "fst (cs_wcntombn cs ws (length ws * cs_cur_max cs)) \<le> 0 \<Longrightarrow>
   child_sendw cs ws echoing write_ret kill_ret s = Return s"
  by (cases "cs_wcntombn cs ws (length ws * cs_cur_max cs)") (simp add: child_sendw_def)

text \<open>An input that cannot be converted, with the pty closed and no child.\<close>

theorem child_sendw_unconvertible_witness:
  "fst (cs_wcntombn \<lparr>cs_cur_max = 1, cs_wcntombn = (\<lambda>ws n. (- 1, []))\<rparr> [0xD800]
          (length [0xD800 :: wchar] * 1)) \<le> 0 \<and>
   pty_fd initial_state < 0 \<and>
   child_sendw \<lparr>cs_cur_max = 1, cs_wcntombn = (\<lambda>ws n. (- 1, []))\<rparr> [0xD800] True 0 0
     initial_state = Return initial_state"
proof -
  let ?cs = "\<lparr>cs_cur_max = 1, cs_wcntombn = (\<lambda>ws n. (- 1 :: int, [] :: string))\<rparr>"
  have h: "fst (cs_wcntombn ?cs [0xD800] (length [0xD800 :: wchar] * cs_cur_max ?cs)) \<le> 0"
    by simp
  from child_sendw_unconvertible [OF h, of True 0 0 initial_state]
  show ?thesis by (simp add: initial_state_def)
qed

subsection \<open>Termination requests\<close>

lemma disposition_append:
  "disposition d (cs @ cs') g = disposition (disposition d cs g) cs' g"
proof (induction cs arbitrary: d)
  case Nil
  show ?case by simp
next
  case (Cons c cs)
  then show ?case by (cases c) simp_all
qed

text \<open>
  Claim C8, as the code has it. \<open>sigexit\<close> sends SIGHUP, whatever signal it received,
  to the process group of the tracked child when there is one, and nothing when there
  is none; then it sets the default disposition for the signal received and sends that
  signal to the process itself. \<open>child_create\<close> installs it for SIGINT, SIGTERM and
  SIGQUIT; SIGHUP is ignored.
\<close>

theorem sigexit_behaviour:
  "sigexit self sig s =
     s\<lparr>sys_calls := sys_calls s @
         (if pid s \<noteq> 0 then [Sys_kill (- pid s) SIGHUP] else []) @
         [Sys_signal sig SIG_DFL, Sys_kill self sig]\<rparr> \<and>
   disposition d (sys_calls (sigexit self sig s)) sig = SIG_DFL \<and>
   disposition SIG_DFL (sys_calls (child_create_signals initial_state)) g =
     (if g = SIGINT \<or> g = SIGTERM \<or> g = SIGQUIT then Handler_sigexit
      else if g = SIGHUP then SIG_IGN
      else if g = SIGCHLD then Handler_sigchld
      else SIG_DFL)"
proof -
  have a: "sigexit self sig s =
     s\<lparr>sys_calls := sys_calls s @
         (if pid s \<noteq> 0 then [Sys_kill (- pid s) SIGHUP] else []) @
         [Sys_signal sig SIG_DFL, Sys_kill self sig]\<rparr>"
    by (simp add: sigexit_def Let_def)
  have b: "disposition d (sys_calls (sigexit self sig s)) sig = SIG_DFL"
    unfolding a by (simp add: disposition_append)
  have c: "disposition SIG_DFL (sys_calls (child_create_signals initial_state)) g =
     (if g = SIGINT \<or> g = SIGTERM \<or> g = SIGQUIT then Handler_sigexit
      else if g = SIGHUP then SIG_IGN
      else if g = SIGCHLD then Handler_sigchld
      else SIG_DFL)"
    by (simp add: child_create_signals_def initial_state_def signal_numbers)
  from a b c show ?thesis by simp
qed

text \<open>
  Claim C8 as stated says that the signal received is the one forwarded, and counts the
  hang-up among the requests handled. On SIGINT the child's group gets SIGHUP, and the
  disposition of SIGHUP is to ignore it.
\<close>

theorem sigexit_forwards_hangup_counterexample:
  "sys_calls (sigexit 100 SIGINT (initial_state\<lparr>pid := 42\<rparr>)) =
     [Sys_kill (- 42) SIGHUP, Sys_signal SIGINT SIG_DFL, Sys_kill 100 SIGINT] \<and>
   SIGHUP \<noteq> SIGINT \<and>
   disposition SIG_DFL (sys_calls (child_create_signals initial_state)) SIGHUP = SIG_IGN"
  by (simp add: sigexit_def initial_state_def child_create_signals_def signal_numbers)

subsection \<open>The event loop\<close>

lemma written_at_append:
  "written_at p (xs @ ys) = written_at p xs @ written_at p ys"
proof (induction xs)
  case Nil
  show ?case by simp
next
  case (Cons c xs)
  then show ?case by (cases c) auto
qed


text \<open>
  What a call of the handler can do to the state: nothing, or reap the tracked child;
  and it re-installs itself.
\<close>

lemma sigchld_loop_state:
  "sigchld_loop h ws s = Some r \<Longrightarrow>
   state_of r = s \<or> (pid s \<noteq> 0 \<and> (\<exists>w. state_of r = reaped s w))"
proof (induction ws)
  case Nil
  then show ?case by simp
next
  case (Cons w ws)
  show ?case
  proof (cases "try_again s w")
    case True
    with Cons show ?thesis by simp
  next
    case False
    show ?thesis
    proof (cases "chld_pid w \<le> 0")
      case True
      with False Cons.prems show ?thesis by auto
    next
      case pos: False
      with False have eq: "chld_pid w = pid s" and nz: "pid s \<noteq> 0"
        by (auto simp: try_again_def)
      from pos eq have step: "sigchld_loop h (w # ws) s =
          (if exit_now h (killed s) (chld_status w) then Some (Exit 0 (reaped s w))
           else sigchld_loop h ws (reaped s w))"
        by (intro sigchld_loop_capture) auto
      from step Cons.prems sigchld_loop_held [of h ws s w]
      have "state_of r = reaped s w" by (auto split: if_splits)
      with nz show ?thesis by blast
    qed
  qed
qed

lemma sigchld_state:
  "sigchld h sig ws s = Some r \<Longrightarrow>
   \<exists>t. (t = s \<or> (pid s \<noteq> 0 \<and> (\<exists>w. t = reaped s w))) \<and>
       (state_of r = t \<or>
        state_of r = t\<lparr>sys_calls := sys_calls t @ [Sys_signal sig Handler_sigchld]\<rparr>)"
proof -
  assume a: "sigchld h sig ws s = Some r"
  then obtain r' where l: "sigchld_loop h ws s = Some r'"
    by (auto simp: sigchld_def split: option.splits)
  from sigchld_loop_state [OF l]
  have t: "state_of r' = s \<or> (pid s \<noteq> 0 \<and> (\<exists>w. state_of r' = reaped s w))" .
  from a l have "state_of r = state_of r' \<or>
      state_of r = (state_of r')\<lparr>sys_calls := sys_calls (state_of r') @ [Sys_signal sig Handler_sigchld]\<rparr>"
    by (cases r') (auto simp: sigchld_def)
  with t show ?thesis by blast
qed

text \<open>The flag \<open>killed\<close>, once set, stays set.\<close>

lemma sigchld_keeps_killed:
  assumes "killed s" and "sigchld h sig ws s = Some r"
  shows "killed (state_of r)"
proof -
  from sigchld_state [OF assms(2)] obtain t where
    t: "t = s \<or> (pid s \<noteq> 0 \<and> (\<exists>w. t = reaped s w))" and
    r: "state_of r = t \<or>
        state_of r = t\<lparr>sys_calls := sys_calls t @ [Sys_signal sig Handler_sigchld]\<rparr>"
    by blast
  from t assms(1) have "killed t" by (auto simp: reaped_def)
  with r show ?thesis by auto
qed

lemma child_send_keeps_killed:
  "killed s \<Longrightarrow> killed (state_of (child_send echo buf wr kr s))"
  by (simp add: child_send_def child_write_def child_kill_def Let_def)

lemma report_status_keeps_killed:
  "killed (report_status strsignal cmd s) = killed s"
  by (simp add: report_status_def Let_def split: option.splits)

lemma poll_keeps_killed: "killed (pass_state (poll e s)) = killed s"
  by (simp add: poll_def Let_def)

lemma child_proc_pass_keeps_killed:
  assumes "killed s"
  shows "killed (pass_state (child_proc_pass strsignal cmd e s))"
proof -
  define r where "r = (case paste_buffer e of None \<Rightarrow> Return s
                       | Some b \<Rightarrow> term_send_paste b e s)"
  have a: "killed (state_of r)"
    unfolding r_def using assms child_send_keeps_killed [OF assms]
    by (simp add: term_send_paste_def split: option.splits)
  show ?thesis
  proof (cases r)
    case (Exit c s1)
    then have "child_proc_pass strsignal cmd e s = Leave (Exit c s1)"
      by (simp add: child_proc_pass_def r_def)
    with a Exit show ?thesis by simp
  next
    case (Return s1)
    then have "child_proc_pass strsignal cmd e s = poll e (report_status strsignal cmd s1)"
      by (simp add: child_proc_pass_def r_def)
    with a Return show ?thesis
      by (simp add: poll_keeps_killed report_status_keeps_killed)
  qed
qed

lemma child_proc_keeps_killed:
  "killed s \<Longrightarrow> child_proc hold strsignal cmd es s = Some r \<Longrightarrow> killed (state_of r)"
proof (induction es arbitrary: s)
  case Nil
  then show ?case by simp
next
  case (Cons ev es)
  show ?case
  proof (cases ev)
    case (Sigchld ws)
    show ?thesis
    proof (cases "sigchld hold SIGCHLD ws s")
      case None
      with Cons.prems Sigchld show ?thesis by simp
    next
      case (Some r1)
      note f = sigchld_keeps_killed [OF Cons.prems(1) Some]
      show ?thesis
      proof (cases r1)
        case (Exit c s1)
        with Cons.prems Sigchld Some f show ?thesis by auto
      next
        case (Return s1)
        with Cons.prems Sigchld Some have run: "child_proc hold strsignal cmd es s1 = Some r"
          by simp
        from f Return have "killed s1" by simp
        from Cons.IH [OF this run] show ?thesis .
      qed
    qed
  next
    case (Pass e)
    note f = child_proc_pass_keeps_killed [OF Cons.prems(1), of strsignal cmd e]
    show ?thesis
    proof (cases "child_proc_pass strsignal cmd e s")
      case (Leave r1)
      with Cons.prems Pass f show ?thesis by auto
    next
      case (Again s1)
      with Cons.prems Pass have run: "child_proc hold strsignal cmd es s1 = Some r" by simp
      from f Again have "killed s1" by simp
      from Cons.IH [OF this run] show ?thesis .
    qed
  qed
qed

subsection \<open>The bytes read from the pty\<close>

lemma forwarded_refl: "forwarded s s []"
  by (simp add: forwarded_def)


lemma forwarded_same:
  "pty_read s' = pty_read s \<Longrightarrow>
   written_at Pty_data (term_calls s') = written_at Pty_data (term_calls s) \<Longrightarrow>
   log_written s' = log_written s \<Longrightarrow> log_fd s' = log_fd s \<Longrightarrow> forwarded s s' []"
  by (simp add: forwarded_def)


lemma child_kill_forwarded: "forwarded s (state_of (child_kill pb kr s)) []"
  by (simp add: child_kill_def Let_def forwarded_def)















lemmas run_defs =
  initial_state_def child_proc_pass_def report_status_def status_message_def poll_def
  sigchld_def try_again_def exit_now_def wait_macros print_int_def print_nat.simps Let_def



subsection \<open>The status line\<close>

lemma sint_small:
  fixes w :: "32 word"
  assumes "w \<le> 0xff"
  shows "sint w = uint w"
proof -
  from assms have a: "uint w \<le> 255" by (simp add: word_le_def)
  have b: "- (2 ^ 31) \<le> uint w"
  proof -
    have "- (2 ^ 31) \<le> (0 :: int)" by simp
    also have "0 \<le> uint w" by (rule uint_ge_0)
    finally show ?thesis .
  qed
  have c: "uint w < 2 ^ 31" using a by simp
  have "signed_take_bit 31 (uint w) = uint w"
    by (rule signed_take_bit_int_eq_self [OF b c])
  then show ?thesis by (simp add: sint_uint)
qed

lemma sint_WEXITSTATUS: "sint (WEXITSTATUS st) = uint (WEXITSTATUS st)"
  unfolding WEXITSTATUS_def by (rule sint_small) (rule word_and_le1)

lemma sint_WTERMSIG: "sint (WTERMSIG st) = uint (WTERMSIG st)"
proof -
  have "WTERMSIG st \<le> 0x7f" unfolding WTERMSIG_def by (rule word_and_le1)
  then have "WTERMSIG st \<le> 0xff" by (simp add: word_le_def)
  then show ?thesis by (rule sint_small)
qed

lemma print_int_exit_code:
  "print_int (sint (WEXITSTATUS st)) = print_nat (unat (WEXITSTATUS st))"
  by (simp add: print_int_def sint_WEXITSTATUS)

lemma status_message_exit:
  "WIFEXITED st \<Longrightarrow> WEXITSTATUS st \<noteq> 0 \<Longrightarrow> WEXITSTATUS st \<noteq> 255 \<Longrightarrow>
   status_message strsignal cmd st =
     Some (cmd @ '': Exit '' @ print_nat (unat (WEXITSTATUS st)))"
  by (simp add: status_message_def Let_def print_int_exit_code)

lemma status_message_signal:
  "WIFSIGNALED st \<Longrightarrow>
   status_message strsignal cmd st = Some (cmd @ '': '' @ strsignal (uint (WTERMSIG st)))"
  using WIFEXITED_not_signaled [of st]
  by (auto simp: status_message_def sint_WTERMSIG)

lemma status_message_silent:
  "WIFEXITED st \<Longrightarrow> WEXITSTATUS st = 0 \<or> WEXITSTATUS st = 255 \<Longrightarrow>
   status_message strsignal cmd st = None"
  by (auto simp: status_message_def Let_def)

lemma pass_reports:
  assumes "paste_buffer e = None" and "status s \<noteq> - 1" and "pty_fd s = - 1"
  shows "term_calls (pass_state (child_proc_pass strsignal cmd e s)) =
           term_calls s @
             (case status_message strsignal cmd (status s) of
                None \<Rightarrow> []
              | Some m \<Rightarrow> [Term_write Status_line m]) \<and>
         status (pass_state (child_proc_pass strsignal cmd e s)) = - 1"
proof -
  let ?t = "report_status strsignal cmd s"
  have eq: "child_proc_pass strsignal cmd e s = poll e ?t"
    using assms(1) by (simp add: child_proc_pass_def)
  have t: "term_calls ?t = term_calls s @
             (case status_message strsignal cmd (status s) of
                None \<Rightarrow> []
              | Some m \<Rightarrow> [Term_write Status_line m])"
      "status ?t = - 1" "pty_fd ?t = - 1"
    using assms(2,3) by (simp_all add: report_status_def Let_def split: option.splits)
  have "pass_state (poll e ?t) = ?t"
    using t(3) by (simp add: poll_def Let_def)
  with eq t show ?thesis by simp
qed

text \<open>
  The status lines written plus those that can still come never increase.
\<close>

lemma sigchld_settles:
  assumes "pending_reaped s" and "sigchld h sig ws s = Some r"
  shows "pending_reaped (state_of r) \<and>
         status_lines (state_of r) + reports_left (state_of r) \<le>
           status_lines s + reports_left s"
proof -
  from sigchld_state [OF assms(2)] obtain t where
    t: "t = s \<or> (pid s \<noteq> 0 \<and> (\<exists>w. t = reaped s w))" and
    r: "state_of r = t \<or>
        state_of r = t\<lparr>sys_calls := sys_calls t @ [Sys_signal sig Handler_sigchld]\<rparr>"
    by blast
  from t assms(1) have "pending_reaped t \<and>
      status_lines t + reports_left t \<le> status_lines s + reports_left s"
    by (auto simp: pending_reaped_def status_lines_def reports_left_def reaped_def)
  with r show ?thesis
    by (auto simp: pending_reaped_def status_lines_def reports_left_def)
qed

lemma child_send_settles:
  "pending_reaped s \<Longrightarrow>
   pending_reaped (state_of (child_send echo buf wr kr s)) \<and>
   status_lines (state_of (child_send echo buf wr kr s)) +
     reports_left (state_of (child_send echo buf wr kr s)) \<le>
     status_lines s + reports_left s"
  by (auto simp: child_send_def child_write_def child_kill_def Let_def pending_reaped_def
      status_lines_def reports_left_def written_at_append)

lemma report_status_settles:
  "pending_reaped s \<Longrightarrow>
   pending_reaped (report_status strsignal cmd s) \<and>
   status_lines (report_status strsignal cmd s) +
     reports_left (report_status strsignal cmd s) \<le>
     status_lines s + reports_left s"
  by (auto simp: report_status_def Let_def pending_reaped_def status_lines_def
      reports_left_def written_at_append split: option.splits)

lemma poll_settles:
  "pending_reaped s \<Longrightarrow>
   pending_reaped (pass_state (poll e s)) \<and>
   status_lines (pass_state (poll e s)) + reports_left (pass_state (poll e s)) \<le>
     status_lines s + reports_left s"
  by (simp add: poll_def Let_def pending_reaped_def status_lines_def reports_left_def
      written_at_append)

lemma child_proc_pass_settles:
  assumes "pending_reaped s"
  shows "pending_reaped (pass_state (child_proc_pass strsignal cmd e s)) \<and>
         status_lines (pass_state (child_proc_pass strsignal cmd e s)) +
           reports_left (pass_state (child_proc_pass strsignal cmd e s)) \<le>
           status_lines s + reports_left s"
proof -
  define r where "r = (case paste_buffer e of None \<Rightarrow> Return s
                       | Some b \<Rightarrow> term_send_paste b e s)"
  have a: "pending_reaped (state_of r) \<and>
      status_lines (state_of r) + reports_left (state_of r) \<le> status_lines s + reports_left s"
    unfolding r_def using assms child_send_settles [OF assms]
    by (simp add: term_send_paste_def split: option.splits)
  show ?thesis
  proof (cases r)
    case (Exit c s1)
    then have "child_proc_pass strsignal cmd e s = Leave (Exit c s1)"
      by (simp add: child_proc_pass_def r_def)
    with a Exit show ?thesis by simp
  next
    case (Return s1)
    then have eq: "child_proc_pass strsignal cmd e s = poll e (report_status strsignal cmd s1)"
      by (simp add: child_proc_pass_def r_def)
    from a Return have a1: "pending_reaped s1"
      and a2: "status_lines s1 + reports_left s1 \<le> status_lines s + reports_left s"
      by simp_all
    note b = report_status_settles [OF a1, of strsignal cmd]
    note c = poll_settles [of "report_status strsignal cmd s1" e]
    from a2 b c show ?thesis unfolding eq by auto
  qed
qed

lemma child_proc_settles:
  "pending_reaped s \<Longrightarrow> child_proc hold strsignal cmd es s = Some r \<Longrightarrow>
   status_lines (state_of r) + reports_left (state_of r) \<le> status_lines s + reports_left s"
proof (induction es arbitrary: s)
  case Nil
  then show ?case by simp
next
  case (Cons ev es)
  show ?case
  proof (cases ev)
    case (Sigchld ws)
    show ?thesis
    proof (cases "sigchld hold SIGCHLD ws s")
      case None
      with Cons.prems Sigchld show ?thesis by simp
    next
      case (Some r1)
      note f = sigchld_settles [OF Cons.prems(1) Some]
      show ?thesis
      proof (cases r1)
        case (Exit c s1)
        with Cons.prems Sigchld Some f show ?thesis by auto
      next
        case (Return s1)
        with Cons.prems Sigchld Some have run: "child_proc hold strsignal cmd es s1 = Some r"
          by simp
        from f Return have "pending_reaped s1" by simp
        from Cons.IH [OF this run] f Return show ?thesis by simp
      qed
    qed
  next
    case (Pass e)
    note f = child_proc_pass_settles [OF Cons.prems(1), of strsignal cmd e]
    show ?thesis
    proof (cases "child_proc_pass strsignal cmd e s")
      case (Leave r1)
      with Cons.prems Pass f show ?thesis by auto
    next
      case (Again s1)
      with Cons.prems Pass have run: "child_proc hold strsignal cmd es s1 = Some r" by simp
      from f Again have "pending_reaped s1" by simp
      from Cons.IH [OF this run] f Again show ?thesis by simp
    qed
  qed
qed

text \<open>
  Claim C6, as the code has it. In a pass for which no paste buffer is staged, with a
  status pending and the pty descriptor equal to \<open>-1\<close>, the loop gives the terminal
  the status line, if there is one, and nothing else, and sets \<open>status\<close> back to
  \<open>-1\<close>. The line is the command,
  \<open>: Exit\<close> and the decimal exit code after a normal exit with a code other than 0 and
  255; the command and the text of \<open>strsignal\<close> after a signal death; there is none
  after an exit with code 0 or 255. From a state where a status is pending only after
  the child was reaped, every run of \<open>child_proc\<close> writes at most one status line, and
  none once \<open>pid\<close> is 0 and no status is pending.
\<close>

theorem status_line_once:
  "(paste_buffer e = None \<and> status s \<noteq> - 1 \<and> pty_fd s = - 1 \<longrightarrow>
      term_calls (pass_state (child_proc_pass strsignal cmd e s)) =
        term_calls s @
          (case status_message strsignal cmd (status s) of
             None \<Rightarrow> []
           | Some m \<Rightarrow> [Term_write Status_line m]) \<and>
      status (pass_state (child_proc_pass strsignal cmd e s)) = - 1) \<and>
   (WIFEXITED st \<and> WEXITSTATUS st \<noteq> 0 \<and> WEXITSTATUS st \<noteq> 255 \<longrightarrow>
      status_message strsignal cmd st =
        Some (cmd @ '': Exit '' @ print_nat (unat (WEXITSTATUS st)))) \<and>
   (WIFSIGNALED st \<longrightarrow>
      status_message strsignal cmd st =
        Some (cmd @ '': '' @ strsignal (uint (WTERMSIG st)))) \<and>
   (WIFEXITED st \<and> (WEXITSTATUS st = 0 \<or> WEXITSTATUS st = 255) \<longrightarrow>
      status_message strsignal cmd st = None) \<and>
   (pending_reaped s \<and> child_proc hold strsignal cmd es s = Some r \<longrightarrow>
      status_lines (state_of r) \<le> status_lines s + 1 \<and>
      (pid s = 0 \<and> status s = - 1 \<longrightarrow> status_lines (state_of r) \<le> status_lines s))"
proof -
  have e: "status_lines (state_of r) \<le> status_lines s + 1 \<and>
      (pid s = 0 \<and> status s = - 1 \<longrightarrow> status_lines (state_of r) \<le> status_lines s)"
    if "pending_reaped s" and "child_proc hold strsignal cmd es s = Some r"
  proof -
    from child_proc_settles [OF that]
    have "status_lines (state_of r) \<le> status_lines s + reports_left s" by simp
    then show ?thesis by (auto simp: reports_left_def split: if_splits)
  qed
  show ?thesis
    using pass_reports [of e s strsignal cmd] status_message_exit [of st strsignal cmd]
      status_message_signal [of st strsignal cmd] status_message_silent [of st strsignal cmd] e
    by blast
qed

text \<open>
  A child killed by signal 9 and held: the pty is closed, the line is written once, and
  a later delivery of SIGCHLD for the same process id brings no second line.
\<close>

theorem status_line_once_witness:
  "pending_reaped (initial_state\<lparr>pid := 7, pty_fd := 3, win_fd := 4\<rparr>) \<and>
   child_proc HOLD_other (\<lambda>n. if n = 9 then ''Killed'' else ''Unknown signal'') ''sh''
     [Sigchld [\<lparr>chld_pid = 7, chld_status = 9, wp_errno = 0\<rparr>,
               \<lparr>chld_pid = 0, chld_status = 0, wp_errno = 0\<rparr>],
      Pass \<lparr>paste_buffer = None, term_echoing = False, ans_write = 0, ans_kill = 0,
            ans_select = 1, pty_ready = True, win_ready = False, ans_read = 0,
            read_buf = []\<rparr>,
      Pass \<lparr>paste_buffer = None, term_echoing = False, ans_write = 0, ans_kill = 0,
            ans_select = 1, pty_ready = False, win_ready = False, ans_read = 0,
            read_buf = []\<rparr>,
      Sigchld [\<lparr>chld_pid = 7, chld_status = 9, wp_errno = 0\<rparr>,
               \<lparr>chld_pid = 0, chld_status = 0, wp_errno = 0\<rparr>],
      Pass \<lparr>paste_buffer = None, term_echoing = False, ans_write = 0, ans_kill = 0,
            ans_select = 1, pty_ready = False, win_ready = True, ans_read = 0,
            read_buf = []\<rparr>]
     (initial_state\<lparr>pid := 7, pty_fd := 3, win_fd := 4\<rparr>) =
   Some (Return (initial_state\<lparr>pid := 0, pty_fd := - 1, win_fd := 4,
      sys_calls := [Sys_signal SIGCHLD Handler_sigchld, Sys_signal SIGCHLD Handler_sigchld],
      term_calls := [Term_write Status_line ''sh: Killed'']\<rparr>)) \<and>
   status_lines (initial_state\<lparr>pid := 0, pty_fd := - 1, win_fd := 4,
      sys_calls := [Sys_signal SIGCHLD Handler_sigchld, Sys_signal SIGCHLD Handler_sigchld],
      term_calls := [Term_write Status_line ''sh: Killed'']\<rparr>) \<le> 0 + 1 \<and>
   status_message (\<lambda>n. ''signal'') ''sh'' 0x100 = Some ''sh: Exit 1'' \<and>
   status_message (\<lambda>n. ''signal'') ''sh'' 0 = None \<and>
   status_message (\<lambda>n. ''signal'') ''sh'' 0xff00 = None"
proof -
  let ?sig = "\<lambda>n :: int. if n = 9 then ''Killed'' else ''Unknown signal''"
  let ?es = "[Sigchld [\<lparr>chld_pid = 7, chld_status = 9, wp_errno = 0\<rparr>,
               \<lparr>chld_pid = 0, chld_status = 0, wp_errno = 0\<rparr>],
      Pass \<lparr>paste_buffer = None, term_echoing = False, ans_write = 0, ans_kill = 0,
            ans_select = 1, pty_ready = True, win_ready = False, ans_read = 0,
            read_buf = []\<rparr>,
      Pass \<lparr>paste_buffer = None, term_echoing = False, ans_write = 0, ans_kill = 0,
            ans_select = 1, pty_ready = False, win_ready = False, ans_read = 0,
            read_buf = []\<rparr>,
      Sigchld [\<lparr>chld_pid = 7, chld_status = 9, wp_errno = 0\<rparr>,
               \<lparr>chld_pid = 0, chld_status = 0, wp_errno = 0\<rparr>],
      Pass \<lparr>paste_buffer = None, term_echoing = False, ans_write = 0, ans_kill = 0,
            ans_select = 1, pty_ready = False, win_ready = True, ans_read = 0,
            read_buf = []\<rparr>]"
  let ?s = "initial_state\<lparr>pid := 7, pty_fd := 3, win_fd := 4\<rparr>"
  let ?fin = "initial_state\<lparr>pid := 0, pty_fd := - 1, win_fd := 4,
      sys_calls := [Sys_signal SIGCHLD Handler_sigchld, Sys_signal SIGCHLD Handler_sigchld],
      term_calls := [Term_write Status_line ''sh: Killed'']\<rparr>"
  have p: "pending_reaped ?s" by (simp add: pending_reaped_def initial_state_def)
  have run: "child_proc HOLD_other ?sig ''sh'' ?es ?s = Some (Return ?fin)"
    by (simp add: run_defs)
  have once: "status_lines ?fin \<le> status_lines ?s + 1"
    using status_line_once [of _ ?s ?sig "''sh''" _ HOLD_other ?es "Return ?fin"] p run
    by simp
  have z: "status_lines ?s = 0" by (simp add: status_lines_def initial_state_def)
  have m: "WIFEXITED 0x100 \<and> WEXITSTATUS 0x100 = 1 \<and> WIFEXITED 0 \<and> WEXITSTATUS 0 = 0 \<and>
           WIFEXITED 0xff00 \<and> WEXITSTATUS 0xff00 = 255"
    by (simp add: wait_macros)
  have a: "status_message (\<lambda>n. ''signal'') ''sh'' 0x100 = Some ''sh: Exit 1''"
    using status_line_once [where st = "0x100" and strsignal = "\<lambda>n. ''signal''"
        and cmd = "''sh''"] m
    by (simp add: print_nat.simps)
  have b: "status_message (\<lambda>n. ''signal'') ''sh'' 0 = None"
    using status_line_once [where st = 0 and strsignal = "\<lambda>n. ''signal''" and cmd = "''sh''"] m
    by simp
  have c: "status_message (\<lambda>n. ''signal'') ''sh'' 0xff00 = None"
    using status_line_once [where st = "0xff00" and strsignal = "\<lambda>n. ''signal''"
        and cmd = "''sh''"] m
    by simp
  from p run once z a b c show ?thesis by simp
qed

text \<open>
  Claim C6 as stated has the status line written whenever a status is pending and the
  pty is closed. With a paste buffer staged in that pass, the child reaped (exit code
  1 pending) and the pty closed: the flush of the paste comes first (line 233), finds
  the pty closed and calls \<open>child_kill(false)\<close>, which exits the process as no child is
  tracked. No status line is written and the status stays pending.
\<close>

theorem status_line_paste_counterexample:
  "status (initial_state\<lparr>status := 0x100\<rparr>) = 0x100 \<and>
   pid (initial_state\<lparr>status := 0x100\<rparr>) = 0 \<and>
   pty_fd (initial_state\<lparr>status := 0x100\<rparr>) = - 1 \<and>
   status_message (\<lambda>n. ''signal'') ''sh'' 0x100 = Some ''sh: Exit 1'' \<and>
   child_proc HOLD_ERROR (\<lambda>n. ''signal'') ''sh''
     [Pass \<lparr>paste_buffer = Some ''x'', term_echoing = False, ans_write = 0, ans_kill = 0,
            ans_select = 1, pty_ready = False, win_ready = True, ans_read = 0,
            read_buf = []\<rparr>]
     (initial_state\<lparr>status := 0x100\<rparr>) =
   Some (Exit 0 (initial_state\<lparr>status := 0x100, term_calls := [Term_reset_screen]\<rparr>)) \<and>
   written_at Status_line [Term_reset_screen] = []"
  by (simp add: run_defs term_send_paste_def child_send_def child_write_def child_kill_def)

subsection \<open>Path conversion\<close>





end
